theory Spec2Isabelle
  imports Main "HOL-Library.Sublist"
begin

section \<open>C strings and bounded formatting\<close>

text \<open>
  The relay of \<^verbatim>\<open>monitoring.c\<close> works on NUL-terminated strings held in fixed arrays.
  An array is a \<^typ>\<open>char list\<close> that may hold NUL bytes; the C string stored at its start
  is what \<^verbatim>\<open>strlen\<close>, \<^verbatim>\<open>%s\<close> and \<^verbatim>\<open>strchr\<close> see: the bytes before the first NUL.
  \<^verbatim>\<open>BUFSIZ\<close> comes from \<^verbatim>\<open>stdio.h\<close>, which is not part of the repository, so every
  function that uses it takes it as the parameter \<open>bufsiz\<close> (8192 with glibc).
\<close>

definition NUL :: char where
  "NUL = CHR 0x00"

definition NEWLINE :: char where
  "NEWLINE = CHR 0x0A"

definition c_string :: "string \<Rightarrow> bool" where
  "c_string s = (NUL \<notin> set s)"

definition cstr :: "char list \<Rightarrow> string" where
  "cstr mem = takeWhile (\<lambda>c. c \<noteq> NUL) mem"

text \<open>
  \<^verbatim>\<open>snprintf(dst, size, ...)\<close> stores at most \<open>size - 1\<close> characters of the formatted
  text followed by a NUL, and returns the length of the whole formatted text.
\<close>

definition snprintf_bytes :: "nat \<Rightarrow> string \<Rightarrow> char list" where
  "snprintf_bytes sz s = (if sz = 0 then [] else take (sz - 1) s @ [NUL])"

definition snprintf_str :: "nat \<Rightarrow> string \<Rightarrow> string" where
  "snprintf_str sz s = take (sz - 1) s"

text \<open>Writing bytes into an array at an offset; the bytes are assumed to fit in the array.\<close>

definition store :: "char list \<Rightarrow> nat \<Rightarrow> char list \<Rightarrow> char list" where
  "store mem off bytes = take off mem @ bytes @ drop (off + length bytes) mem"

text \<open>
  A \<^verbatim>\<open>char *\<close> that may be NULL is a \<^typ>\<open>string option\<close>. Passing NULL for \<^verbatim>\<open>%s\<close>
  is undefined in ISO C; glibc prints the text \<^verbatim>\<open>(null)\<close>, which is what is modelled.
\<close>

definition printf_s :: "string option \<Rightarrow> string" where
  "printf_s p = (case p of None \<Rightarrow> ''(null)'' | Some s \<Rightarrow> s)"

text \<open>\<^verbatim>\<open>strstr(haystack, needle)\<close>: the offset of the first occurrence, or NULL.\<close>

fun strstr :: "string \<Rightarrow> string \<Rightarrow> nat option" where
  "strstr [] needle = (if needle = [] then Some 0 else None)"
| "strstr (c # cs) needle =
     (if prefix needle (c # cs) then Some 0 else map_option Suc (strstr cs needle))"

text \<open>\<^verbatim>\<open>strchr(s, c)\<close>: the offset of the first \<open>c\<close> in the C string, or NULL.\<close>

definition strchr :: "string \<Rightarrow> char \<Rightarrow> nat option" where
  "strchr s c = (if c \<in> set s then Some (length (takeWhile (\<lambda>x. x \<noteq> c) s)) else None)"

text \<open>\<^verbatim>\<open>%d\<close> of an \<^verbatim>\<open>int\<close>.\<close>

fun decimal :: "nat \<Rightarrow> string" where
  "decimal n = (if n < 10 then [''0123456789'' ! n]
                else decimal (n div 10) @ [''0123456789'' ! (n mod 10)])"

definition printf_d :: "int \<Rightarrow> string" where
  "printf_d i = (if i < 0 then ''-'' @ decimal (nat (- i)) else decimal (nat i))"

section \<open>The monitoring context\<close>

record MonitoringThreadContext =
  url :: string
  credentials :: string
  wf_label :: string
  wf_uuid :: string
  dag_job_id :: string
  condor_job_id :: string
  xformation :: "string option"
  task_id :: "string option"
  socket :: int

type_synonym environ = "string \<rightharpoonup> string"

definition not_specified :: "string \<Rightarrow> string" where
  "not_specified key = ''ERROR: '' @ key @ '' not specified'' @ [NEWLINE]"

text \<open>
  \<^verbatim>\<open>initialize_monitoring_context\<close>: \<open>Inl\<close> carries the message given to
  \<^verbatim>\<open>printerr\<close> when the function returns -1; \<open>Inr\<close> is the filled context of a return 0.
  The context comes from \<^verbatim>\<open>calloc\<close>, so its \<open>socket\<close> is still 0.
\<close>

definition initialize_monitoring_context :: "environ \<Rightarrow> string + MonitoringThreadContext" where
  "initialize_monitoring_context env =
    (case env ''KICKSTART_MON_ENDPOINT_URL'' of
       None \<Rightarrow> Inl (not_specified ''KICKSTART_MON_ENDPOINT_URL'')
     | Some u \<Rightarrow>
    (case env ''KICKSTART_MON_ENDPOINT_CREDENTIALS'' of
       None \<Rightarrow> Inl (not_specified ''KICKSTART_MON_ENDPOINT_CREDENTIALS'')
     | Some cr \<Rightarrow>
    (case env ''PEGASUS_WF_UUID'' of
       None \<Rightarrow> Inl (not_specified ''PEGASUS_WF_UUID'')
     | Some uu \<Rightarrow>
    (case env ''PEGASUS_WF_LABEL'' of
       None \<Rightarrow> Inl (not_specified ''PEGASUS_WF_LABEL'')
     | Some la \<Rightarrow>
    (case env ''PEGASUS_DAG_JOB_ID'' of
       None \<Rightarrow> Inl (not_specified ''PEGASUS_DAG_JOB_ID'')
     | Some dj \<Rightarrow>
    (case env ''CONDOR_JOBID'' of
       None \<Rightarrow> Inl (not_specified ''CONDOR_JOBID'')
     | Some cj \<Rightarrow>
       Inr \<lparr>url = u, credentials = cr, wf_label = la, wf_uuid = uu, dag_job_id = dj,
            condor_job_id = cj, xformation = env ''PEGASUS_XFORMATION'',
            task_id = env ''PEGASUS_TASK_ID'', socket = 0\<rparr>))))))"

definition required_keys :: "string list" where
  "required_keys = [''KICKSTART_MON_ENDPOINT_URL'', ''KICKSTART_MON_ENDPOINT_CREDENTIALS'',
     ''PEGASUS_WF_UUID'', ''PEGASUS_WF_LABEL'', ''PEGASUS_DAG_JOB_ID'', ''CONDOR_JOBID'']"

section \<open>The broker forwarder\<close>

record http_post =
  post_url :: string
  post_userpwd :: string
  ssl_verifypeer :: bool
  ssl_verifyhost :: bool
  post_header :: "string list"
  post_fields :: string

text \<open>
  \<^verbatim>\<open>send_msg_to_mq\<close>: \<open>curl_ok\<close> tells whether \<^verbatim>\<open>curl_easy_init\<close> gave a handle; without one
  nothing is sent. The body is written by \<^verbatim>\<open>sprintf\<close> into \<open>strlen(msg_buff) + BUFSIZ\<close>
  bytes; a body that does not fit there with its NUL overruns the allocation, which is a
  result of its own. The result of \<^verbatim>\<open>curl_easy_perform\<close> is only logged.
\<close>

datatype send_result = NoCurlHandle | PayloadOverrun | Posted http_post

definition send_msg_to_mq ::
  "nat \<Rightarrow> bool \<Rightarrow> string \<Rightarrow> MonitoringThreadContext \<Rightarrow> send_result" where
  \<open>send_msg_to_mq bufsiz curl_ok msg_buff ctx =
    (let body = ''{"properties":{},"routing_key":"'' @ wf_uuid ctx @
           ''","payload":"'' @ msg_buff @ ''","payload_encoding":"string"}''
     in if \<not> curl_ok then NoCurlHandle
        else if length msg_buff + bufsiz < length body + 1 then PayloadOverrun
        else Posted \<lparr>post_url = url ctx, post_userpwd = credentials ctx,
               ssl_verifypeer = False, ssl_verifyhost = False,
               post_header = [''Content-Type: application/json''],
               post_fields = body\<rparr>)\<close>

section \<open>The endpoint allocator\<close>

text \<open>
  What the operating system answers to the calls of \<^verbatim>\<open>create_ephemeral_endpoint\<close>:
  the return values of \<^verbatim>\<open>socket\<close>, \<^verbatim>\<open>bind\<close>, \<^verbatim>\<open>listen\<close>, \<^verbatim>\<open>getsockname\<close> and
  \<^verbatim>\<open>gethostname\<close>, the host name and the port read back.
\<close>

record endpoint_calls =
  socket_ret :: int
  bind_ret :: int
  listen_ret :: int
  getsockname_ret :: int
  gethostname_ret :: int
  host_name :: string
  sin_port :: nat

text \<open>
  The result: the returned \<^verbatim>\<open>int\<close>, the host and port stored through the OUT parameters
  (written on the success path only; the caller reads them on that path only, so the
  failure paths carry an empty name and port 0) and the descriptors given to
  \<^verbatim>\<open>close\<close>, in order.
\<close>

record endpoint_result =
  ep_return :: int
  ep_host :: string
  ep_port :: nat
  ep_closed :: "int list"

definition endpoint_error :: "int list \<Rightarrow> endpoint_result" where
  "endpoint_error closed = \<lparr>ep_return = - 1, ep_host = [], ep_port = 0, ep_closed = closed\<rparr>"

definition create_ephemeral_endpoint :: "endpoint_calls \<Rightarrow> endpoint_result" where
  "create_ephemeral_endpoint os =
    (let listenfd = socket_ret os in
     if listenfd < 0 then endpoint_error []
     else if bind_ret os < 0 then endpoint_error [listenfd]
     else if listen_ret os < 0 then endpoint_error [listenfd]
     else if getsockname_ret os = - 1 then endpoint_error [listenfd]
     else if gethostname_ret os \<noteq> 0 then endpoint_error []
     else \<lparr>ep_return = listenfd, ep_host = host_name os, ep_port = sin_port os,
            ep_closed = []\<rparr>)"

text \<open>The failure paths of the allocator, as the operating system's answers select them.\<close>

definition endpoint_fails :: "endpoint_calls \<Rightarrow> bool" where
  "endpoint_fails os = (socket_ret os < 0 \<or> bind_ret os < 0 \<or> listen_ret os < 0 \<or>
     getsockname_ret os = - 1 \<or> gethostname_ret os \<noteq> 0)"

section \<open>The lifecycle controller: start\<close>

record start_calls =
  endpoint :: endpoint_calls
  getpid_ret :: int
  pipe_ret :: int
  pthread_create_ret :: int

text \<open>
  The result of \<^verbatim>\<open>start_monitoring_thread\<close>: the returned \<^verbatim>\<open>int\<close>, the environment after
  the calls of \<^verbatim>\<open>setenv\<close>, the message of a failed context initialisation, and the context
  handed to the monitoring thread when \<^verbatim>\<open>pthread_create\<close> started it. A failing \<^verbatim>\<open>fcntl\<close>
  only logs a warning and is left out.
\<close>

record start_result =
  start_return :: int
  start_env :: environ
  start_error :: "string option"
  start_thread :: "MonitoringThreadContext option"

definition publish :: "nat \<Rightarrow> environ \<Rightarrow> int \<Rightarrow> int \<Rightarrow> string \<Rightarrow> nat \<Rightarrow> environ" where
  "publish bufsiz env interval pid host port =
    env(''KICKSTART_MON'' \<mapsto> ''enabled'',
        ''KICKSTART_MON_INTERVAL'' \<mapsto> snprintf_str bufsiz (printf_d interval),
        ''KICKSTART_MON_PID'' \<mapsto> snprintf_str bufsiz (printf_d pid),
        ''KICKSTART_MON_HOST'' \<mapsto> host,
        ''KICKSTART_MON_PORT'' \<mapsto> snprintf_str bufsiz (printf_d (int port)))"

definition start_monitoring_thread ::
  "nat \<Rightarrow> start_calls \<Rightarrow> environ \<Rightarrow> int \<Rightarrow> start_result" where
  "start_monitoring_thread bufsiz os env interval =
    (let ep = create_ephemeral_endpoint (endpoint os) in
     if ep_return ep < 0
     then \<lparr>start_return = - 1, start_env = env, start_error = None, start_thread = None\<rparr>
     else
      (let env' = publish bufsiz env interval (getpid_ret os) (ep_host ep) (ep_port ep) in
       case initialize_monitoring_context env' of
         Inl msg \<Rightarrow> \<lparr>start_return = - 1, start_env = env', start_error = Some msg,
                      start_thread = None\<rparr>
       | Inr ctx0 \<Rightarrow>
          (let ctx = ctx0\<lparr>socket := ep_return ep\<rparr> in
           if pipe_ret os < 0
           then \<lparr>start_return = pipe_ret os, start_env = env', start_error = None,
                  start_thread = None\<rparr>
           else if pthread_create_ret os \<noteq> 0
           then \<lparr>start_return = pthread_create_ret os, start_env = env', start_error = None,
                  start_thread = None\<rparr>
           else \<lparr>start_return = 0, start_env = env', start_error = None,
                  start_thread = Some ctx\<rparr>)))"

section \<open>The relay loop\<close>

text \<open>
  What the loop does to the outside, in order: a call of \<^verbatim>\<open>accept\<close>, the \<^verbatim>\<open>close\<close> of the
  incoming descriptor at the label \<^verbatim>\<open>next\<close> (of the descriptor -1 after an interrupted
  \<^verbatim>\<open>accept\<close>), a call of \<^verbatim>\<open>send_msg_to_mq\<close> with the C string found in the aggregation
  buffer, the warning about clients left behind, the \<^verbatim>\<open>close\<close> of the listening socket
  and \<^verbatim>\<open>pthread_exit\<close>. The other diagnostics are not traced.
\<close>

datatype action =
    Accept
  | CloseIncoming
  | Send string
  | LeavingClientsWarning
  | CloseSocket int
  | PthreadExit

text \<open>
  What one pass of the loop meets: the outcome of \<^verbatim>\<open>recv\<close> (an error, or the bytes it
  received, \<open>num_bytes\<close> of them), of \<^verbatim>\<open>accept\<close> (interrupted, another error, or a
  connection), and of \<^verbatim>\<open>poll\<close> (an error, or the \<^verbatim>\<open>POLLIN\<close> bits of the signal pipe and
  of the socket together with what \<^verbatim>\<open>accept\<close> would answer).
\<close>

datatype recv_result = RecvError | Received "char list"

datatype accept_result = AcceptEINTR | AcceptError | Accepted recv_result

datatype event = PollError | Poll bool bool accept_result

text \<open>
  The state of the loop: the counter, the offset and the aggregation buffer, the array
  \<open>line\<close>, and the trace. The array \<open>line\<close> is never cleared and \<^verbatim>\<open>recv\<close> writes no NUL
  after the bytes it stores, so the array keeps what earlier passes left behind the bytes
  of the current one.
\<close>

record loop_state =
  msg_counter :: nat
  aggr_msg_buffer_offset :: nat
  aggr_msg_buffer :: "char list"
  line :: "char list"
  trace :: "action list"

definition MSG_AGGR_FACTOR :: nat where
  "MSG_AGGR_FACTOR = 1"

definition delim :: string where
  "delim = '':delim1:''"

definition emit :: "action list \<Rightarrow> loop_state \<Rightarrow> loop_state" where
  "emit acts st = st\<lparr>trace := trace st @ acts\<rparr>"

text \<open>
  \<^verbatim>\<open>recv(incoming_socket, line, BUFSIZ, 0)\<close> stores the bytes received, at most \<open>bufsiz\<close>
  of them, at the start of the array and leaves the rest of the array as it was.
\<close>

definition recv_into :: "nat \<Rightarrow> char list \<Rightarrow> char list \<Rightarrow> char list" where
  "recv_into bufsiz arr bytes = store arr 0 (take bufsiz bytes)"

text \<open>Lines 286 to 290: the first newline of the C string in the array becomes a NUL.\<close>

definition cut_newline :: "char list \<Rightarrow> char list" where
  "cut_newline arr =
     (case strchr (cstr arr) NEWLINE of None \<Rightarrow> arr | Some pos \<Rightarrow> arr[pos := NUL])"

text \<open>The formatted text of the enriched line, and what fits in \<open>enriched_line\<close>.\<close>

definition enriched_text :: "MonitoringThreadContext \<Rightarrow> string \<Rightarrow> string" where
  "enriched_text ctx l =
     l @ '' wf_uuid='' @ wf_uuid ctx @ '' wf_label='' @ wf_label ctx @
     '' dag_job_id='' @ dag_job_id ctx @ '' condor_job_id='' @ condor_job_id ctx @
     '' xformation='' @ printf_s (xformation ctx) @ '' task_id='' @ printf_s (task_id ctx)"

definition enriched_line :: "nat \<Rightarrow> MonitoringThreadContext \<Rightarrow> string \<Rightarrow> string" where
  "enriched_line bufsiz ctx l = snprintf_str bufsiz (enriched_text ctx l)"

text \<open>
  Lines 303 to 318: the enriched line and the delimiter are written at the offset, at most
  \<open>bufsiz\<close> bytes; \<open>n\<close> is the length of the whole text (a length, so the test \<^verbatim>\<open>n < 0\<close>
  of the source never holds). When \<open>n\<close> exceeds \<open>bufsiz\<close> the record is not counted, but
  the bytes are written all the same. The aggregation factor is the parameter \<open>N\<close>; the
  source fixes it to \<open>MSG_AGGR_FACTOR\<close>.
\<close>

definition aggregate :: "nat \<Rightarrow> nat \<Rightarrow> string \<Rightarrow> loop_state \<Rightarrow> loop_state" where
  "aggregate N bufsiz enriched st =
    (let n = length (enriched @ delim);
         buf = store (aggr_msg_buffer st) (aggr_msg_buffer_offset st)
                 (snprintf_bytes bufsiz (enriched @ delim))
     in if n > bufsiz then st\<lparr>aggr_msg_buffer := buf\<rparr>
        else if msg_counter st + 1 = N
        then st\<lparr>msg_counter := 0, aggr_msg_buffer_offset := 0,
                aggr_msg_buffer := replicate (bufsiz * N) NUL,
                trace := trace st @ [Send (cstr buf)]\<rparr>
        else st\<lparr>msg_counter := msg_counter st + 1,
                aggr_msg_buffer_offset := aggr_msg_buffer_offset st + n,
                aggr_msg_buffer := buf\<rparr>)"

text \<open>
  Lines 279 to 318, from a successful \<^verbatim>\<open>recv\<close> up to the label \<^verbatim>\<open>next\<close>: the bytes go
  into the array, the newline is cut, and the C string then found in the array is tested
  for the prefix, enriched and aggregated.
\<close>

definition handle_line ::
  "nat \<Rightarrow> nat \<Rightarrow> MonitoringThreadContext \<Rightarrow> char list \<Rightarrow> loop_state \<Rightarrow> loop_state" where
  "handle_line N bufsiz ctx bytes st =
    (let arr = cut_newline (recv_into bufsiz (line st) bytes);
         l = cstr arr;
         st1 = st\<lparr>line := arr\<rparr>
     in if strstr l ''ts='' \<noteq> Some 0 then st1
        else aggregate N bufsiz (enriched_line bufsiz ctx l) st1)"

datatype flow = Continue | Break

definition loop_body ::
  "nat \<Rightarrow> nat \<Rightarrow> MonitoringThreadContext \<Rightarrow> event \<Rightarrow> loop_state \<Rightarrow> flow \<times> loop_state" where
  "loop_body N bufsiz ctx ev st =
    (case ev of
       PollError \<Rightarrow> (Break, st)
     | Poll pipe_in socket_in acc \<Rightarrow>
        if pipe_in then (Break, if socket_in then emit [LeavingClientsWarning] st else st)
        else (case acc of
                AcceptEINTR \<Rightarrow> (Continue, emit [Accept, CloseIncoming] st)
              | AcceptError \<Rightarrow> (Break, emit [Accept] st)
              | Accepted RecvError \<Rightarrow> (Continue, emit [Accept, CloseIncoming] st)
              | Accepted (Received bytes) \<Rightarrow>
                  (Continue, emit [CloseIncoming]
                     (handle_line N bufsiz ctx bytes (emit [Accept] st)))))"

text \<open>
  The loop over the events the thread meets. It leaves only through a \<^verbatim>\<open>break\<close>; when the
  events run out before one, the thread is still blocked in \<^verbatim>\<open>poll\<close> and there is no
  state at the exit.
\<close>

fun monitoring_loop ::
  "nat \<Rightarrow> nat \<Rightarrow> MonitoringThreadContext \<Rightarrow> event list \<Rightarrow> loop_state \<Rightarrow> loop_state option" where
  "monitoring_loop N bufsiz ctx [] st = None"
| "monitoring_loop N bufsiz ctx (ev # evs) st =
     (case loop_body N bufsiz ctx ev st of
        (Break, st') \<Rightarrow> Some st'
      | (Continue, st') \<Rightarrow> monitoring_loop N bufsiz ctx evs st')"

text \<open>Lines 324 to 335: the final send, the close of the listening socket, the exit.\<close>

definition drain :: "MonitoringThreadContext \<Rightarrow> loop_state \<Rightarrow> loop_state" where
  "drain ctx st =
    emit [CloseSocket (socket ctx), PthreadExit]
      (if msg_counter st > 0 then emit [Send (cstr (aggr_msg_buffer st))] st else st)"

text \<open>
  The thread function. The aggregation buffer and the array \<open>line\<close> are uninitialised
  arrays of \<open>bufsiz * N\<close> and \<open>bufsiz\<close> bytes, so their first contents \<open>stack\<close> and
  \<open>stack_line\<close> are arbitrary.
\<close>

definition monitoring_thread_func ::
  "nat \<Rightarrow> nat \<Rightarrow> MonitoringThreadContext \<Rightarrow> char list \<Rightarrow> char list \<Rightarrow> event list \<Rightarrow>
   loop_state option" where
  "monitoring_thread_func N bufsiz ctx stack stack_line evs =
    map_option (drain ctx)
      (monitoring_loop N bufsiz ctx evs
         \<lparr>msg_counter = 0, aggr_msg_buffer_offset = 0, aggr_msg_buffer = stack,
          line = stack_line, trace = []\<rparr>)"

section \<open>Vocabulary of the properties\<close>

text \<open>
  The envelope of the broker as the specification words it: a JSON object with an empty
  \<open>properties\<close> field, the routing key, the payload and the payload encoding \<open>string\<close>.
\<close>

definition broker_envelope :: "string \<Rightarrow> string \<Rightarrow> string" where
  \<open>broker_envelope routing_key payload =
     ''{"properties":{},"routing_key":"'' @ routing_key @ ''","payload":"'' @ payload @
     ''","payload_encoding":"string"}''\<close>

text \<open>
  The enriched record as the specification words it: six \<open>key=value\<close> tokens in a fixed
  order, each after one space; \<open>x\<close> and \<open>t\<close> are the values of the two optional fields.
\<close>

definition identity_fields ::
  "MonitoringThreadContext \<Rightarrow> string \<Rightarrow> string \<Rightarrow> (string \<times> string) list" where
  "identity_fields ctx x t =
     [(''wf_uuid'', wf_uuid ctx), (''wf_label'', wf_label ctx), (''dag_job_id'', dag_job_id ctx),
      (''condor_job_id'', condor_job_id ctx), (''xformation'', x), (''task_id'', t)]"

definition tokens :: "(string \<times> string) list \<Rightarrow> string" where
  "tokens kvs = concat (map (\<lambda>(k, v). '' '' @ k @ ''='' @ v) kvs)"

text \<open>The strings of a context are C strings: none holds a NUL.\<close>

definition ctx_c_strings :: "MonitoringThreadContext \<Rightarrow> bool" where
  "ctx_c_strings ctx = (c_string (wf_uuid ctx) \<and> c_string (wf_label ctx) \<and>
     c_string (dag_job_id ctx) \<and> c_string (condor_job_id ctx) \<and>
     c_string (printf_s (xformation ctx)) \<and> c_string (printf_s (task_id ctx)))"

text \<open>
  One pass of the loop in which the socket alone is readable, a client is accepted and
  \<^verbatim>\<open>recv\<close> delivers \<open>bytes\<close>.
\<close>

definition connection :: "char list \<Rightarrow> event" where
  "connection bytes = Poll False True (Accepted (Received bytes))"

text \<open>
  The invariant of the aggregation buffer: it starts with the text \<open>pre\<close> of the buffered
  records, the offset is the length of that text, and once a record is buffered the
  C string of the buffer is that text.
\<close>

definition buffered :: "string \<Rightarrow> loop_state \<Rightarrow> bool" where
  "buffered pre st = (aggr_msg_buffer_offset st = length pre \<and>
     take (length pre) (aggr_msg_buffer st) = pre \<and> c_string pre \<and>
     (if pre = [] then True else cstr (aggr_msg_buffer st) = pre))"

text \<open>
  Sample inputs: a context with both optional fields, the context that start hands to the
  thread for the environment \<open>env_required\<close>, two environments, an operating system that
  answers well and one whose \<^verbatim>\<open>gethostname\<close> fails, the state in which the thread
  enters the loop with arrays full of \<open>#\<close>, and a line that with its enriched text and
  the delimiter is exactly 8192 characters long.
\<close>

definition sample_ctx :: MonitoringThreadContext where
  "sample_ctx = \<lparr>url = ''https://mq/api'', credentials = ''user:pw'', wf_label = ''l'',
     wf_uuid = ''u'', dag_job_id = ''d'', condor_job_id = ''c'', xformation = Some ''x'',
     task_id = Some ''t'', socket = 3\<rparr>"

definition sample_ctx_absent :: MonitoringThreadContext where
  "sample_ctx_absent = \<lparr>url = ''https://mq/api'', credentials = ''user:pw'', wf_label = ''l'',
     wf_uuid = ''u'', dag_job_id = ''d'', condor_job_id = ''c'', xformation = None,
     task_id = None, socket = 3\<rparr>"

definition env_required :: environ where
  "env_required = map_of [(''KICKSTART_MON_ENDPOINT_URL'', ''https://mq/api''),
     (''KICKSTART_MON_ENDPOINT_CREDENTIALS'', ''user:pw''), (''PEGASUS_WF_UUID'', ''u''),
     (''PEGASUS_WF_LABEL'', ''l''), (''PEGASUS_DAG_JOB_ID'', ''d''), (''CONDOR_JOBID'', ''c'')]"

definition env_no_label :: environ where
  "env_no_label = map_of [(''KICKSTART_MON_ENDPOINT_URL'', ''https://mq/api''),
     (''KICKSTART_MON_ENDPOINT_CREDENTIALS'', ''user:pw''), (''PEGASUS_WF_UUID'', ''u''),
     (''PEGASUS_DAG_JOB_ID'', ''d''), (''PEGASUS_TASK_ID'', ''t'')]"

definition os_ok :: start_calls where
  "os_ok = \<lparr>endpoint = \<lparr>socket_ret = 3, bind_ret = 0, listen_ret = 0, getsockname_ret = 0,
       gethostname_ret = 0, host_name = ''node1'', sin_port = 40000\<rparr>,
     getpid_ret = 4242, pipe_ret = 0, pthread_create_ret = 0\<rparr>"

definition os_no_hostname :: endpoint_calls where
  "os_no_hostname = \<lparr>socket_ret = 3, bind_ret = 0, listen_ret = 0, getsockname_ret = 0,
     gethostname_ret = - 1, host_name = [], sin_port = 40000\<rparr>"

definition thread_entry :: loop_state where
  "thread_entry = \<lparr>msg_counter = 0, aggr_msg_buffer_offset = 0,
     aggr_msg_buffer = replicate 8192 (CHR ''#''), line = replicate 8192 (CHR ''#''),
     trace = []\<rparr>"

definition boundary_line :: string where
  "boundary_line = ''ts='' @ replicate 8108 (CHR ''a'')"

section \<open>C strings: lemmas\<close>

lemma strstr_at_start: "(strstr h n = Some 0) = prefix n h"
  by (cases h) auto

lemma cstr_terminated: "c_string w \<Longrightarrow> cstr (w @ NUL # rest) = w"
  by (induction w) (auto simp: cstr_def c_string_def)

lemma c_string_append [simp]: "c_string (a @ b) = (c_string a \<and> c_string b)"
  by (auto simp: c_string_def)

lemma c_string_cstr [simp]: "c_string (cstr mem)"
  by (auto simp: c_string_def cstr_def dest: set_takeWhileD)

lemma c_string_delim [simp]: "c_string delim"
  by (simp add: c_string_def delim_def NUL_def)

lemma c_string_butlast: "c_string s \<Longrightarrow> c_string (butlast s)"
  by (auto simp: c_string_def dest: in_set_butlastD)

lemma store_at_end:
  "take (length pre) mem = pre \<Longrightarrow>
   store mem (length pre) bytes = pre @ bytes @ drop (length pre + length bytes) mem"
  by (simp add: store_def)

lemma snprintf_bytes_fit: "length s < sz \<Longrightarrow> snprintf_bytes sz s = s @ [NUL]"
  by (simp add: snprintf_bytes_def)

lemma snprintf_bytes_boundary:
  "length s = sz \<Longrightarrow> 0 < sz \<Longrightarrow> snprintf_bytes sz s = butlast s @ [NUL]"
  by (simp add: snprintf_bytes_def butlast_conv_take)

lemma store_fit:
  assumes "take (length pre) mem = pre" "c_string pre" "c_string s" "length s < sz"
  shows "cstr (store mem (length pre) (snprintf_bytes sz s)) = pre @ s"
    and "take (length pre + length s) (store mem (length pre) (snprintf_bytes sz s)) = pre @ s"
  using assms cstr_terminated[of "pre @ s"]
  by (simp_all add: store_at_end snprintf_bytes_fit)

lemma enriched_text_tokens:
  "enriched_text ctx l =
   l @ tokens (identity_fields ctx (printf_s (xformation ctx)) (printf_s (task_id ctx)))"
  by (simp add: enriched_text_def tokens_def identity_fields_def)

text \<open>
  With both optional fields present and an enriched text shorter than \<open>bufsiz\<close>, the
  enriched line is the line followed by the six tokens in their order; a line that fills
  the array \<open>enriched_line\<close> by itself gets no token at all.
\<close>

lemma enriched_line_tokens:
  "xformation ctx = Some x \<Longrightarrow> task_id ctx = Some t \<Longrightarrow>
   length (l @ tokens (identity_fields ctx x t)) < bufsiz \<Longrightarrow>
   enriched_line bufsiz ctx l = l @ tokens (identity_fields ctx x t)"
  by (simp add: enriched_line_def snprintf_str_def enriched_text_tokens printf_s_def)


lemma enriched_line_cut:
  "bufsiz - 1 \<le> length l \<Longrightarrow> enriched_line bufsiz ctx l = take (bufsiz - 1) l"
  by (simp add: enriched_line_def snprintf_str_def enriched_text_def)

lemma enriched_line_fit:
  "length (enriched_text ctx l @ delim) < bufsiz \<Longrightarrow>
   enriched_line bufsiz ctx l = enriched_text ctx l"
  by (simp add: enriched_line_def snprintf_str_def delim_def)

lemma c_string_enriched:
  "ctx_c_strings ctx \<Longrightarrow> c_string l \<Longrightarrow> c_string (enriched_text ctx l)"
  by (simp add: enriched_text_def ctx_c_strings_def) (simp add: c_string_def NUL_def)

text \<open>
  When the bytes received hold a newline after a text without NUL or newline, and fit in
  the array, the line that the loop parses is that text, whatever the array held before.
\<close>

lemma takeWhile_past:
  "c \<notin> set l \<Longrightarrow> takeWhile (\<lambda>x. x \<noteq> c) (l @ ys) = l @ takeWhile (\<lambda>x. x \<noteq> c) ys"
  by (induction l) auto

lemma strchr_first: "c \<notin> set l \<Longrightarrow> strchr (l @ c # rest) c = Some (length l)"
  by (simp add: strchr_def takeWhile_past)

lemma recv_terminated:
  assumes "c_string l" "NEWLINE \<notin> set l" "length (l @ NEWLINE # rest) \<le> bufsiz"
  shows "cut_newline (recv_into bufsiz arr (l @ NEWLINE # rest)) =
           l @ NUL # rest @ drop (Suc (length l + length rest)) arr"
    and "cstr (cut_newline (recv_into bufsiz arr (l @ NEWLINE # rest))) = l"
proof -
  let ?tail = "rest @ drop (Suc (length l + length rest)) arr"
  have r: "recv_into bufsiz arr (l @ NEWLINE # rest) = l @ NEWLINE # ?tail"
    using assms(3) by (simp add: recv_into_def store_def)
  have c: "cstr (l @ NEWLINE # ?tail) = l @ NEWLINE # cstr ?tail"
    using assms(1) by (simp add: cstr_def c_string_def takeWhile_past) (simp add: NEWLINE_def NUL_def)
  have s: "strchr (l @ NEWLINE # cstr ?tail) NEWLINE = Some (length l)"
    using assms(2) by (rule strchr_first)
  show 1: "cut_newline (recv_into bufsiz arr (l @ NEWLINE # rest)) = l @ NUL # ?tail"
    by (simp add: cut_newline_def r c s)
  show "cstr (cut_newline (recv_into bufsiz arr (l @ NEWLINE # rest))) = l"
    unfolding 1 using assms(1) by (rule cstr_terminated)
qed

section \<open>The aggregator: lemmas\<close>

lemma aggregate_below:
  assumes "buffered pre st" "c_string e" "length (e @ delim) < bufsiz"
    and "msg_counter st + 1 \<noteq> N"
  shows "\<exists>st'. aggregate N bufsiz e st = st' \<and> msg_counter st' = msg_counter st + 1 \<and>
     buffered (pre @ e @ delim) st' \<and> trace st' = trace st"
  using assms store_fit[of pre "aggr_msg_buffer st" "e @ delim" bufsiz]
  by (simp add: aggregate_def Let_def buffered_def)

lemma aggregate_flush:
  assumes "buffered pre st" "c_string e" "length (e @ delim) < bufsiz"
    and "msg_counter st + 1 = N"
  shows "aggregate N bufsiz e st =
     st\<lparr>msg_counter := 0, aggr_msg_buffer_offset := 0,
        aggr_msg_buffer := replicate (bufsiz * N) NUL,
        trace := trace st @ [Send (pre @ e @ delim)]\<rparr>"
proof -
  from assms have "cstr (store (aggr_msg_buffer st) (aggr_msg_buffer_offset st)
                 (snprintf_bytes bufsiz (e @ delim))) = pre @ e @ delim"
    using store_fit(1)[of pre "aggr_msg_buffer st" "e @ delim" bufsiz]
    by (simp add: buffered_def)
  with assms show ?thesis
    by (simp add: aggregate_def Let_def)
qed

lemma aggregate_boundary:
  assumes "buffered pre st" "c_string e" "length (e @ delim) = bufsiz"
    and "msg_counter st + 1 = N"
  shows "aggregate N bufsiz e st =
     st\<lparr>msg_counter := 0, aggr_msg_buffer_offset := 0,
        aggr_msg_buffer := replicate (bufsiz * N) NUL,
        trace := trace st @ [Send (pre @ butlast (e @ delim))]\<rparr>"
proof -
  have pos: "0 < bufsiz" using assms(3) by (auto simp: delim_def)
  have "cstr (store (aggr_msg_buffer st) (aggr_msg_buffer_offset st)
                 (snprintf_bytes bufsiz (e @ delim))) = pre @ butlast (e @ delim)"
    using assms(1,2) cstr_terminated[of "pre @ butlast (e @ delim)"]
      c_string_butlast[of "e @ delim"]
    by (simp add: buffered_def store_at_end snprintf_bytes_boundary[OF assms(3) pos])
  with assms show ?thesis
    by (simp add: aggregate_def Let_def)
qed

text \<open>
  The writes of the aggregator stay inside the array of \<open>bufsiz * N\<close> bytes: the offset
  never exceeds \<open>bufsiz\<close> times the counter, and the counter stays below \<open>N\<close>.
\<close>

lemma snprintf_bytes_length: "length (snprintf_bytes sz s) \<le> sz"
  by (auto simp: snprintf_bytes_def)

lemma store_length:
  "off + length bytes \<le> length mem \<Longrightarrow> length (store mem off bytes) = length mem"
  by (simp add: store_def)

lemma aggregate_write_in_bounds:
  assumes "aggr_msg_buffer_offset st \<le> msg_counter st * bufsiz" "msg_counter st < N"
  shows "aggr_msg_buffer_offset st + length (snprintf_bytes bufsiz s) \<le> bufsiz * N"
proof -
  have "aggr_msg_buffer_offset st + length (snprintf_bytes bufsiz s) \<le>
        msg_counter st * bufsiz + bufsiz"
    using assms(1) snprintf_bytes_length[of bufsiz s] by simp
  also have "\<dots> = Suc (msg_counter st) * bufsiz" by simp
  also have "\<dots> \<le> N * bufsiz"
    using assms(2) by (intro mult_le_mono1) simp
  finally show ?thesis by (simp add: mult.commute)
qed

lemma aggregate_keeps_bounds:
  assumes "aggr_msg_buffer_offset st \<le> msg_counter st * bufsiz" "msg_counter st < N"
    and "length (aggr_msg_buffer st) = bufsiz * N"
  shows "aggr_msg_buffer_offset (aggregate N bufsiz e st) \<le>
           msg_counter (aggregate N bufsiz e st) * bufsiz"
    and "msg_counter (aggregate N bufsiz e st) < N"
    and "length (aggr_msg_buffer (aggregate N bufsiz e st)) = bufsiz * N"
  using assms aggregate_write_in_bounds[OF assms(1,2), of "e @ delim"]
  by (auto simp: aggregate_def Let_def store_length)

text \<open>
  A record that the test \<^verbatim>\<open>n > BUFSIZ\<close> rejects is not counted, yet its first
  \<open>bufsiz - 1\<close> characters stay in the buffer behind the buffered records.
\<close>

lemma aggregate_rejected:
  assumes "buffered pre st" "c_string e" "bufsiz < length (e @ delim)" "0 < bufsiz"
  shows "msg_counter (aggregate N bufsiz e st) = msg_counter st"
    and "aggr_msg_buffer_offset (aggregate N bufsiz e st) = aggr_msg_buffer_offset st"
    and "trace (aggregate N bufsiz e st) = trace st"
    and "cstr (aggr_msg_buffer (aggregate N bufsiz e st)) =
           pre @ take (bufsiz - 1) (e @ delim)"
proof -
  have "c_string (e @ delim)"
    using assms(2) by simp
  then have t: "c_string (take (bufsiz - 1) (e @ delim))"
    unfolding c_string_def by (meson in_set_takeD)
  have "cstr (store (aggr_msg_buffer st) (aggr_msg_buffer_offset st)
                 (snprintf_bytes bufsiz (e @ delim))) = pre @ take (bufsiz - 1) (e @ delim)"
    using assms(1,4) t cstr_terminated[of "pre @ take (bufsiz - 1) (e @ delim)"]
    by (simp add: buffered_def store_at_end snprintf_bytes_def)
  then show "cstr (aggr_msg_buffer (aggregate N bufsiz e st)) =
           pre @ take (bufsiz - 1) (e @ delim)"
    using assms(3) by (simp add: aggregate_def Let_def)
  show "msg_counter (aggregate N bufsiz e st) = msg_counter st"
    "aggr_msg_buffer_offset (aggregate N bufsiz e st) = aggr_msg_buffer_offset st"
    "trace (aggregate N bufsiz e st) = trace st"
    using assms(3) by (simp_all add: aggregate_def Let_def)
qed

section \<open>The relay loop: lemmas\<close>

lemma buffered_emit: "buffered pre st \<Longrightarrow> buffered pre (emit acts st)"
  by (simp add: buffered_def emit_def)

lemma buffered_line: "buffered pre st \<Longrightarrow> buffered pre (st\<lparr>line := arr\<rparr>)"
  by (simp add: buffered_def)

text \<open>
  A pass that accepts a client and receives bytes, by the line \<open>l\<close> that the loop then
  finds in the array: without the prefix only the array changes; with it, a record
  shorter than \<open>bufsiz\<close> with its delimiter that completes the batch is sent with the
  buffered text, and one of exactly \<open>bufsiz\<close> characters is sent without its last
  character.
\<close>

lemma body_discard:
  assumes "\<not> prefix ''ts='' (cstr (cut_newline (recv_into bufsiz (line st) bytes)))"
  shows "loop_body N bufsiz ctx (connection bytes) st =
     (Continue, st\<lparr>line := cut_newline (recv_into bufsiz (line st) bytes),
                    trace := trace st @ [Accept, CloseIncoming]\<rparr>)"
  using assms
  by (simp add: loop_body_def connection_def handle_line_def Let_def strstr_at_start emit_def)

lemma body_flush:
  assumes "ctx_c_strings ctx" "cstr (cut_newline (recv_into bufsiz (line st) bytes)) = l"
    and "prefix ''ts='' l" "length (enriched_text ctx l @ delim) < bufsiz"
    and "buffered pre st" "msg_counter st + 1 = N"
  shows "loop_body N bufsiz ctx (connection bytes) st = (Continue,
     \<lparr>msg_counter = 0, aggr_msg_buffer_offset = 0,
      aggr_msg_buffer = replicate (bufsiz * N) NUL,
      line = cut_newline (recv_into bufsiz (line st) bytes),
      trace = trace st @ [Accept, Send (pre @ enriched_text ctx l @ delim), CloseIncoming]\<rparr>)"
proof -
  let ?st1 = "(emit [Accept] st)\<lparr>line := cut_newline (recv_into bufsiz (line st) bytes)\<rparr>"
  have cl: "c_string l"
    using assms(2) c_string_cstr[of "cut_newline (recv_into bufsiz (line st) bytes)"] by simp
  have e: "enriched_line bufsiz ctx l = enriched_text ctx l"
    using assms(4) by (rule enriched_line_fit)
  have b: "buffered pre ?st1"
    using assms(5) by (simp add: buffered_def emit_def)
  have "aggregate N bufsiz (enriched_text ctx l) ?st1 =
     ?st1\<lparr>msg_counter := 0, aggr_msg_buffer_offset := 0,
        aggr_msg_buffer := replicate (bufsiz * N) NUL,
        trace := trace ?st1 @ [Send (pre @ enriched_text ctx l @ delim)]\<rparr>"
  proof (rule aggregate_flush[OF b c_string_enriched[OF assms(1) cl] assms(4)])
    show "msg_counter ?st1 + 1 = N" using assms(6) by (simp add: emit_def)
  qed
  then show ?thesis
    using assms(2,3) e
    by (simp add: loop_body_def connection_def handle_line_def Let_def strstr_at_start emit_def)
qed

lemma body_boundary:
  assumes "ctx_c_strings ctx" "cstr (cut_newline (recv_into bufsiz (line st) bytes)) = l"
    and "prefix ''ts='' l" "length (enriched_text ctx l @ delim) = bufsiz"
    and "buffered pre st" "msg_counter st + 1 = N"
  shows "loop_body N bufsiz ctx (connection bytes) st = (Continue,
     \<lparr>msg_counter = 0, aggr_msg_buffer_offset = 0,
      aggr_msg_buffer = replicate (bufsiz * N) NUL,
      line = cut_newline (recv_into bufsiz (line st) bytes),
      trace = trace st @
        [Accept, Send (pre @ butlast (enriched_text ctx l @ delim)), CloseIncoming]\<rparr>)"
proof -
  let ?st1 = "(emit [Accept] st)\<lparr>line := cut_newline (recv_into bufsiz (line st) bytes)\<rparr>"
  have cl: "c_string l"
    using assms(2) c_string_cstr[of "cut_newline (recv_into bufsiz (line st) bytes)"] by simp
  have e: "enriched_line bufsiz ctx l = enriched_text ctx l"
    using assms(4) by (simp add: enriched_line_def snprintf_str_def delim_def)
  have b: "buffered pre ?st1"
    using assms(5) by (simp add: buffered_def emit_def)
  have "aggregate N bufsiz (enriched_text ctx l) ?st1 =
     ?st1\<lparr>msg_counter := 0, aggr_msg_buffer_offset := 0,
        aggr_msg_buffer := replicate (bufsiz * N) NUL,
        trace := trace ?st1 @ [Send (pre @ butlast (enriched_text ctx l @ delim))]\<rparr>"
  proof (rule aggregate_boundary[OF b c_string_enriched[OF assms(1) cl] assms(4)])
    show "msg_counter ?st1 + 1 = N" using assms(6) by (simp add: emit_def)
  qed
  then show ?thesis
    using assms(2,3) e
    by (simp add: loop_body_def connection_def handle_line_def Let_def strstr_at_start emit_def)
qed

text \<open>
  The same passes for bytes that end a text without NUL or newline by a newline: the
  line found is that text, and the array holds it with a NUL in place of the newline.
\<close>

lemma pass_discard:
  assumes "c_string l" "NEWLINE \<notin> set l" "length l < bufsiz" "\<not> prefix ''ts='' l"
  shows "loop_body N bufsiz ctx (connection (l @ [NEWLINE])) st =
     (Continue, st\<lparr>line := l @ NUL # drop (Suc (length l)) (line st),
                    trace := trace st @ [Accept, CloseIncoming]\<rparr>)"
proof -
  have len: "length (l @ NEWLINE # []) \<le> bufsiz"
    using assms(3) by simp
  have p: "cstr (cut_newline (recv_into bufsiz (line st) (l @ [NEWLINE]))) = l"
    using recv_terminated(2)[OF assms(1,2) len, of "line st"] by simp
  have a: "cut_newline (recv_into bufsiz (line st) (l @ [NEWLINE])) =
      l @ NUL # drop (Suc (length l)) (line st)"
    using recv_terminated(1)[OF assms(1,2) len, of "line st"] by simp
  have np: "\<not> prefix ''ts='' (cstr (cut_newline (recv_into bufsiz (line st) (l @ [NEWLINE]))))"
    unfolding p by (rule assms(4))
  show ?thesis
    using body_discard[OF np, of N ctx] by (simp only: a)
qed

lemma pass_flush:
  assumes "c_string l" "NEWLINE \<notin> set l" "length l < bufsiz" "prefix ''ts='' l"
    and "ctx_c_strings ctx" "length (enriched_text ctx l @ delim) < bufsiz"
    and "buffered pre st" "msg_counter st + 1 = N"
  shows "loop_body N bufsiz ctx (connection (l @ [NEWLINE])) st = (Continue,
     \<lparr>msg_counter = 0, aggr_msg_buffer_offset = 0,
      aggr_msg_buffer = replicate (bufsiz * N) NUL,
      line = l @ NUL # drop (Suc (length l)) (line st),
      trace = trace st @ [Accept, Send (pre @ enriched_text ctx l @ delim), CloseIncoming]\<rparr>)"
proof -
  have len: "length (l @ NEWLINE # []) \<le> bufsiz"
    using assms(3) by simp
  have p: "cstr (cut_newline (recv_into bufsiz (line st) (l @ [NEWLINE]))) = l"
    using recv_terminated(2)[OF assms(1,2) len, of "line st"] by simp
  have a: "cut_newline (recv_into bufsiz (line st) (l @ [NEWLINE])) =
      l @ NUL # drop (Suc (length l)) (line st)"
    using recv_terminated(1)[OF assms(1,2) len, of "line st"] by simp
  show ?thesis
    using body_flush[OF assms(5) p assms(4,6,7,8)] by (simp add: a)
qed

lemma pass_boundary:
  assumes "c_string l" "NEWLINE \<notin> set l" "length l < bufsiz" "prefix ''ts='' l"
    and "ctx_c_strings ctx" "length (enriched_text ctx l @ delim) = bufsiz"
    and "buffered pre st" "msg_counter st + 1 = N"
  shows "loop_body N bufsiz ctx (connection (l @ [NEWLINE])) st = (Continue,
     \<lparr>msg_counter = 0, aggr_msg_buffer_offset = 0,
      aggr_msg_buffer = replicate (bufsiz * N) NUL,
      line = l @ NUL # drop (Suc (length l)) (line st),
      trace = trace st @
        [Accept, Send (pre @ butlast (enriched_text ctx l @ delim)), CloseIncoming]\<rparr>)"
proof -
  have len: "length (l @ NEWLINE # []) \<le> bufsiz"
    using assms(3) by simp
  have p: "cstr (cut_newline (recv_into bufsiz (line st) (l @ [NEWLINE]))) = l"
    using recv_terminated(2)[OF assms(1,2) len, of "line st"] by simp
  have a: "cut_newline (recv_into bufsiz (line st) (l @ [NEWLINE])) =
      l @ NUL # drop (Suc (length l)) (line st)"
    using recv_terminated(1)[OF assms(1,2) len, of "line st"] by simp
  show ?thesis
    using body_boundary[OF assms(5) p assms(4,6,7,8)] by (simp add: a)
qed



text \<open>
  For any aggregation factor the draining phase sends the C string of the buffer exactly
  when the counter is positive, then closes the socket and exits.
\<close>

lemma drain_trace:
  "trace (drain ctx st) = trace st @
     (if 0 < msg_counter st then [Send (cstr (aggr_msg_buffer st))] else []) @
     [CloseSocket (socket ctx), PthreadExit]"
  by (simp add: drain_def emit_def)

text \<open>
  One newline-terminated line with the prefix, then the shutdown signal, with the
  aggregation factor of the source: a record shorter than \<open>bufsiz\<close> with its delimiter
  is sent whole, and one of exactly \<open>bufsiz\<close> characters passes the test
  \<^verbatim>\<open>n > BUFSIZ\<close> although its last character was cut.
\<close>

lemma single_record_run:
  assumes "c_string l" "NEWLINE \<notin> set l" "length l < bufsiz" "prefix ''ts='' l"
    and "ctx_c_strings ctx" "length (enriched_text ctx l @ delim) < bufsiz"
  shows "map_option trace
     (monitoring_thread_func MSG_AGGR_FACTOR bufsiz ctx stack stack_line
        [connection (l @ [NEWLINE]), Poll True False AcceptError])
     = Some [Accept, Send (enriched_text ctx l @ delim), CloseIncoming,
             CloseSocket (socket ctx), PthreadExit]"
proof -
  let ?st0 = "\<lparr>msg_counter = 0, aggr_msg_buffer_offset = 0, aggr_msg_buffer = stack,
               line = stack_line, trace = []\<rparr>"
  have b: "buffered [] ?st0"
    by (simp add: buffered_def c_string_def)
  have c: "msg_counter ?st0 + 1 = MSG_AGGR_FACTOR"
    by (simp add: MSG_AGGR_FACTOR_def)
  show ?thesis
    unfolding monitoring_thread_func_def
    using pass_flush[OF assms b c]
    by (simp add: loop_body_def[of _ _ _ "Poll True False AcceptError"] drain_def emit_def)
qed

lemma boundary_run:
  assumes "c_string l" "NEWLINE \<notin> set l" "length l < bufsiz" "prefix ''ts='' l"
    and "ctx_c_strings ctx" "length (enriched_text ctx l @ delim) = bufsiz"
  shows "map_option trace
     (monitoring_thread_func MSG_AGGR_FACTOR bufsiz ctx stack stack_line
        [connection (l @ [NEWLINE]), Poll True False AcceptError])
     = Some [Accept, Send (butlast (enriched_text ctx l @ delim)), CloseIncoming,
             CloseSocket (socket ctx), PthreadExit]"
proof -
  let ?st0 = "\<lparr>msg_counter = 0, aggr_msg_buffer_offset = 0, aggr_msg_buffer = stack,
               line = stack_line, trace = []\<rparr>"
  have b: "buffered [] ?st0"
    by (simp add: buffered_def c_string_def)
  have c: "msg_counter ?st0 + 1 = MSG_AGGR_FACTOR"
    by (simp add: MSG_AGGR_FACTOR_def)
  show ?thesis
    unfolding monitoring_thread_func_def
    using pass_boundary[OF assms b c]
    by (simp add: loop_body_def[of _ _ _ "Poll True False AcceptError"] drain_def emit_def)
qed

section \<open>Start and the endpoint: lemmas\<close>

lemma endpoint_return: "ep_return (create_ephemeral_endpoint os) < 0 = endpoint_fails os"
  by (auto simp: create_ephemeral_endpoint_def endpoint_error_def endpoint_fails_def Let_def)

text \<open>The failures of \<^verbatim>\<open>bind\<close>, \<^verbatim>\<open>listen\<close> and \<^verbatim>\<open>getsockname\<close> close the socket.\<close>

lemma endpoint_closes:
  "0 \<le> socket_ret os \<Longrightarrow>
   bind_ret os < 0 \<or> listen_ret os < 0 \<or> getsockname_ret os = - 1 \<Longrightarrow>
   create_ephemeral_endpoint os = endpoint_error [socket_ret os]"
  by (auto simp: create_ephemeral_endpoint_def Let_def)

lemma init_find: "initialize_monitoring_context env =
  (case find (\<lambda>k. env k = None) required_keys of
     Some k \<Rightarrow> Inl (not_specified k)
   | None \<Rightarrow> Inr \<lparr>url = the (env ''KICKSTART_MON_ENDPOINT_URL''),
         credentials = the (env ''KICKSTART_MON_ENDPOINT_CREDENTIALS''),
         wf_label = the (env ''PEGASUS_WF_LABEL''), wf_uuid = the (env ''PEGASUS_WF_UUID''),
         dag_job_id = the (env ''PEGASUS_DAG_JOB_ID''),
         condor_job_id = the (env ''CONDOR_JOBID''),
         xformation = env ''PEGASUS_XFORMATION'', task_id = env ''PEGASUS_TASK_ID'',
         socket = 0\<rparr>)"
  by (simp add: initialize_monitoring_context_def required_keys_def split: option.splits)

lemma publish_required:
  "k \<in> set required_keys \<Longrightarrow> publish bufsiz env interval pid host port k = env k"
  by (auto simp: publish_def required_keys_def)

lemma find_publish:
  "find (\<lambda>k. publish bufsiz env interval pid host port k = None) required_keys =
   find (\<lambda>k. env k = None) required_keys"
  by (rule find_cong) (simp_all add: publish_required)

lemma publish_values:
  "map (publish bufsiz env interval pid host port)
     [''KICKSTART_MON'', ''KICKSTART_MON_INTERVAL'', ''KICKSTART_MON_PID'',
      ''KICKSTART_MON_HOST'', ''KICKSTART_MON_PORT''] =
   [Some ''enabled'', Some (snprintf_str bufsiz (printf_d interval)),
    Some (snprintf_str bufsiz (printf_d pid)), Some host,
    Some (snprintf_str bufsiz (printf_d (int port)))]"
  by (simp add: publish_def)

section \<open>The enriched record\<close>

text \<open>
  C1 fails when an optional variable is absent. With the six required variables set and
  neither \<^verbatim>\<open>PEGASUS_XFORMATION\<close> nor \<^verbatim>\<open>PEGASUS_TASK_ID\<close>, start hands the thread a
  context with two null pointers, \<^verbatim>\<open>snprintf\<close> gets them for \<^verbatim>\<open>%s\<close>, and the record sent
  for the line \<open>ts=1\<close> carries the text \<open>(null)\<close> twice, not two empty values.
\<close>

theorem absent_fields_print_null:
  "start_thread (start_monitoring_thread 8192 os_ok env_required 10) = Some sample_ctx_absent \<and>
   map_option trace
     (monitoring_thread_func MSG_AGGR_FACTOR 8192 sample_ctx_absent
        (replicate 8192 (CHR ''#'')) (replicate 8192 (CHR ''#''))
        [connection (''ts=1'' @ [NEWLINE]), Poll True False AcceptError]) =
   Some [Accept,
     Send ''ts=1 wf_uuid=u wf_label=l dag_job_id=d condor_job_id=c xformation=(null) task_id=(null):delim1:'',
     CloseIncoming, CloseSocket 3, PthreadExit]"
proof -
  have s: "start_thread (start_monitoring_thread 8192 os_ok env_required 10) =
      Some sample_ctx_absent"
    by (simp add: start_monitoring_thread_def create_ephemeral_endpoint_def os_ok_def Let_def
        publish_def initialize_monitoring_context_def env_required_def sample_ctx_absent_def)
  have t: "map_option trace
     (monitoring_thread_func MSG_AGGR_FACTOR 8192 sample_ctx_absent
        (replicate 8192 (CHR ''#'')) (replicate 8192 (CHR ''#''))
        [connection (''ts=1'' @ [NEWLINE]), Poll True False AcceptError]) =
   Some [Accept,
     Send ''ts=1 wf_uuid=u wf_label=l dag_job_id=d condor_job_id=c xformation=(null) task_id=(null):delim1:'',
     CloseIncoming, CloseSocket 3, PthreadExit]"
    using single_record_run[of "''ts=1''" 8192 sample_ctx_absent
        "replicate 8192 (CHR ''#'')" "replicate 8192 (CHR ''#'')"]
    by (simp add: c_string_def NUL_def NEWLINE_def ctx_c_strings_def printf_s_def
        enriched_text_def delim_def sample_ctx_absent_def)
  show ?thesis
    using s t by (rule conjI)
qed

section \<open>Batches\<close>

text \<open>
  C2 fails at the boundary. With \<open>BUFSIZ = 8192\<close> and the aggregation factor of the
  source, the record of \<open>boundary_line\<close> is 8184 characters long and 8192 with its
  delimiter. It is counted, so the count reaches the factor and the batch is sent and the
  buffer, the offset and the counter are reset; but \<^verbatim>\<open>snprintf\<close> stored only 8191
  characters, and the batch sent is the record followed by \<open>:delim1\<close>, not by the
  delimiter.
\<close>

theorem boundary_record_flushed_cut:
  "monitoring_loop MSG_AGGR_FACTOR 8192 sample_ctx
     [connection (boundary_line @ [NEWLINE]), PollError] thread_entry =
   Some \<lparr>msg_counter = 0, aggr_msg_buffer_offset = 0,
     aggr_msg_buffer = replicate 8192 NUL,
     line = boundary_line @ NUL # replicate 80 (CHR ''#''),
     trace = [Accept,
       Send (boundary_line @
         '' wf_uuid=u wf_label=l dag_job_id=d condor_job_id=c xformation=x task_id=t:delim1''),
       CloseIncoming]\<rparr>"
proof -
  have b: "buffered [] thread_entry"
    by (simp add: buffered_def c_string_def thread_entry_def)
  have c: "msg_counter thread_entry + 1 = MSG_AGGR_FACTOR"
    by (simp add: MSG_AGGR_FACTOR_def thread_entry_def)
  have cs: "c_string boundary_line" "NEWLINE \<notin> set boundary_line"
    "length boundary_line < 8192" "prefix ''ts='' boundary_line"
    by (simp_all add: boundary_line_def c_string_def NUL_def NEWLINE_def)
  have cc: "ctx_c_strings sample_ctx"
    by (simp add: ctx_c_strings_def sample_ctx_def c_string_def NUL_def printf_s_def)
  have len: "length (enriched_text sample_ctx boundary_line @ delim) = 8192"
    by (simp add: boundary_line_def enriched_text_def sample_ctx_def printf_s_def delim_def)
  have bl: "butlast (enriched_text sample_ctx boundary_line @ delim) = boundary_line @
      '' wf_uuid=u wf_label=l dag_job_id=d condor_job_id=c xformation=x task_id=t:delim1''"
    by (simp add: enriched_text_def sample_ctx_def printf_s_def delim_def butlast_append)
  have ln: "drop (Suc (length boundary_line)) (line thread_entry) = replicate 80 (CHR ''#'')"
    by (simp add: boundary_line_def thread_entry_def)
  have tr: "trace thread_entry = []"
    by (simp add: thread_entry_def)
  have body: "loop_body MSG_AGGR_FACTOR 8192 sample_ctx
      (connection (boundary_line @ [NEWLINE])) thread_entry = (Continue,
     \<lparr>msg_counter = 0, aggr_msg_buffer_offset = 0,
      aggr_msg_buffer = replicate (8192 * MSG_AGGR_FACTOR) NUL,
      line = boundary_line @ NUL # drop (Suc (length boundary_line)) (line thread_entry),
      trace = trace thread_entry @
        [Accept, Send ([] @ butlast (enriched_text sample_ctx boundary_line @ delim)),
         CloseIncoming]\<rparr>)"
    by (rule pass_boundary[OF cs cc len b c])
  show ?thesis
    using body
    by (simp add: bl ln tr loop_body_def[of _ _ _ PollError] MSG_AGGR_FACTOR_def)
qed



section \<open>The delimiter at the boundary\<close>

text \<open>
  C10 fails at the boundary. With \<open>BUFSIZ = 8192\<close> and the aggregation factor of the
  source, a line of 8111 characters gives an enriched record of 8184 characters; with the
  delimiter the text is 8192 characters long, \<^verbatim>\<open>snprintf\<close> stores 8191 of them and returns
  8192, the test \<^verbatim>\<open>n > BUFSIZ\<close> lets the record pass, and the message sent ends with
  \<open>:delim1\<close>, not with the delimiter.
\<close>

theorem boundary_record_loses_delimiter:
  "map_option trace
     (monitoring_thread_func MSG_AGGR_FACTOR 8192 sample_ctx
        (replicate 8192 (CHR ''#'')) (replicate 8192 (CHR ''#''))
        [connection (''ts='' @ replicate 8108 (CHR ''a'') @ [NEWLINE]),
         Poll True False AcceptError])
   = Some [Accept,
       Send (''ts='' @ replicate 8108 (CHR ''a'') @
         '' wf_uuid=u wf_label=l dag_job_id=d condor_job_id=c xformation=x task_id=t:delim1''),
       CloseIncoming, CloseSocket 3, PthreadExit]"
  using boundary_run[of "''ts='' @ replicate 8108 (CHR ''a'')" 8192 sample_ctx
      "replicate 8192 (CHR ''#'')" "replicate 8192 (CHR ''#'')"]
  by (simp add: c_string_def NUL_def NEWLINE_def ctx_c_strings_def printf_s_def
      enriched_text_def delim_def butlast_append sample_ctx_def)

section \<open>Shutdown and discarded lines\<close>

text \<open>
  C4: in a pass of the loop where the signal pipe is readable, whether or not the
  listening socket is readable too and whatever \<^verbatim>\<open>accept\<close> would answer, the loop is
  left at once: \<^verbatim>\<open>accept\<close> is not called, the later events are not looked at, and the
  warning is logged exactly when the socket is readable as well.
\<close>

theorem shutdown_skips_accept:
  "monitoring_loop N bufsiz ctx (Poll True socket_in acc # evs) st =
   Some (st\<lparr>trace := trace st @ (if socket_in then [LeavingClientsWarning] else [])\<rparr>)"
  by (simp add: loop_body_def emit_def)

text \<open>
  C7 fails when a client sends no newline. The array \<open>line\<close> is never cleared and
  \<^verbatim>\<open>recv\<close> writes no NUL, so the prefix is tested on the bytes received together with
  what the array still holds. A first client sends \<open>xs=5\<close> and a newline, which is
  discarded and leaves \<open>xs=5\<close> in the array; a second client sends the single byte
  \<open>t\<close>, a line that does not begin with \<open>ts=\<close>; the array then reads \<open>ts=5\<close>, and that
  text is enriched and sent.
\<close>

theorem residue_passes_prefix_test:
  "map_option trace
     (monitoring_thread_func MSG_AGGR_FACTOR 8192 sample_ctx
        (replicate 8192 (CHR ''#'')) (replicate 8192 (CHR ''#''))
        [connection (''xs=5'' @ [NEWLINE]), connection ''t'', Poll True False AcceptError]) =
   Some [Accept, CloseIncoming, Accept,
     Send ''ts=5 wf_uuid=u wf_label=l dag_job_id=d condor_job_id=c xformation=x task_id=t:delim1:'',
     CloseIncoming, CloseSocket 3, PthreadExit]"
proof -
  let ?st0 = "\<lparr>msg_counter = 0, aggr_msg_buffer_offset = 0,
      aggr_msg_buffer = replicate 8192 (CHR ''#''), line = replicate 8192 (CHR ''#''),
      trace = []\<rparr>"
  let ?st1 = "\<lparr>msg_counter = 0, aggr_msg_buffer_offset = 0,
      aggr_msg_buffer = replicate 8192 (CHR ''#''),
      line = ''xs=5'' @ NUL # replicate 8187 (CHR ''#''),
      trace = [Accept, CloseIncoming]\<rparr>"
  have cc: "ctx_c_strings sample_ctx"
    by (simp add: ctx_c_strings_def sample_ctx_def c_string_def NUL_def printf_s_def)
  have p1: "loop_body MSG_AGGR_FACTOR 8192 sample_ctx (connection (''xs=5'' @ [NEWLINE])) ?st0 =
      (Continue, ?st1)"
    using pass_discard[of "''xs=5''" 8192 MSG_AGGR_FACTOR sample_ctx ?st0]
    by (simp add: c_string_def NUL_def NEWLINE_def)
  have parsed: "cstr (cut_newline (recv_into 8192 (line ?st1) ''t'')) = ''ts=5''"
    by (simp add: recv_into_def store_def cut_newline_def cstr_def strchr_def NUL_def
        NEWLINE_def)
  have b: "buffered [] ?st1"
    by (simp add: buffered_def c_string_def)
  have c: "msg_counter ?st1 + 1 = MSG_AGGR_FACTOR"
    by (simp add: MSG_AGGR_FACTOR_def)
  have pre: "prefix ''ts='' ''ts=5''"
    by simp
  have len: "length (enriched_text sample_ctx ''ts=5'' @ delim) < 8192"
    by (simp add: enriched_text_def sample_ctx_def printf_s_def delim_def)
  have p2: "loop_body MSG_AGGR_FACTOR 8192 sample_ctx (connection ''t'') ?st1 = (Continue,
     \<lparr>msg_counter = 0, aggr_msg_buffer_offset = 0,
      aggr_msg_buffer = replicate (8192 * MSG_AGGR_FACTOR) NUL,
      line = cut_newline (recv_into 8192 (line ?st1) ''t''),
      trace = trace ?st1 @
        [Accept, Send ([] @ enriched_text sample_ctx ''ts=5'' @ delim), CloseIncoming]\<rparr>)"
    by (rule body_flush[OF cc parsed pre len b c])
  have e: "enriched_text sample_ctx ''ts=5'' @ delim =
      ''ts=5 wf_uuid=u wf_label=l dag_job_id=d condor_job_id=c xformation=x task_id=t:delim1:''"
    by (simp add: enriched_text_def sample_ctx_def printf_s_def delim_def)
  have s3: "socket sample_ctx = 3"
    by (simp add: sample_ctx_def)
  show ?thesis
    unfolding monitoring_thread_func_def
    using p1 p2 e s3
    by (simp add: loop_body_def[of _ _ _ "Poll True False AcceptError"] drain_def emit_def)
qed

section \<open>The broker envelope\<close>

text \<open>
  C9: whenever \<^verbatim>\<open>send_msg_to_mq\<close> gets a curl handle and the workflow UUID leaves room for
  the 75 characters of the envelope and the NUL in the \<open>bufsiz\<close> spare bytes, the request
  is a POST whose body is the envelope with the workflow UUID of the context as routing
  key and the message it was given, the text of the flushed batch, as payload.
\<close>

theorem post_body_is_envelope:
  "length (wf_uuid ctx) + 76 \<le> bufsiz \<Longrightarrow>
   send_msg_to_mq bufsiz True msg_buff ctx =
     Posted \<lparr>post_url = url ctx, post_userpwd = credentials ctx,
       ssl_verifypeer = False, ssl_verifyhost = False,
       post_header = [''Content-Type: application/json''],
       post_fields = broker_envelope (wf_uuid ctx) msg_buff\<rparr>"
  by (simp add: send_msg_to_mq_def broker_envelope_def Let_def)

text \<open>The same at the sample context and a batch of one record.\<close>

theorem post_body_is_envelope_witness:
  \<open>length (wf_uuid sample_ctx) + 76 \<le> (8192::nat) \<and>
   send_msg_to_mq 8192 True ''ts=1 wf_uuid=u:delim1:'' sample_ctx =
     Posted \<lparr>post_url = ''https://mq/api'', post_userpwd = ''user:pw'',
       ssl_verifypeer = False, ssl_verifyhost = False,
       post_header = [''Content-Type: application/json''],
       post_fields = ''{"properties":{},"routing_key":"u","payload":"ts=1 wf_uuid=u:delim1:","payload_encoding":"string"}''\<rparr>\<close>
  using post_body_is_envelope[of sample_ctx 8192 "''ts=1 wf_uuid=u:delim1:''"]
  by (simp add: sample_ctx_def broker_envelope_def)

section \<open>Endpoint allocation and start\<close>

text \<open>
  C5 fails on the path of a failing \<^verbatim>\<open>gethostname\<close>: the socket 3 is open, bound and
  listening, the function returns -1, and no descriptor was closed.
\<close>

theorem hostname_failure_leaks_socket:
  "create_ephemeral_endpoint os_no_hostname =
     \<lparr>ep_return = - 1, ep_host = [], ep_port = 0, ep_closed = []\<rparr>"
  by (simp add: create_ephemeral_endpoint_def endpoint_error_def os_no_hostname_def)

text \<open>
  C6, as the code has it: the five values are published as soon as the endpoint is
  allocated, before the identity values are read. When the allocation fails, start
  returns -1 and the environment is unchanged; when it succeeds, the environment after
  start holds the flag \<open>enabled\<close>, the interval, the process id, the host name and the
  port, whatever start returns afterwards.
\<close>

theorem publication_follows_allocation:
  "(endpoint_fails (endpoint os) \<longrightarrow>
      start_return (start_monitoring_thread bufsiz os env interval) = - 1 \<and>
      start_env (start_monitoring_thread bufsiz os env interval) = env) \<and>
   (\<not> endpoint_fails (endpoint os) \<longrightarrow>
      map (start_env (start_monitoring_thread bufsiz os env interval))
        [''KICKSTART_MON'', ''KICKSTART_MON_INTERVAL'', ''KICKSTART_MON_PID'',
         ''KICKSTART_MON_HOST'', ''KICKSTART_MON_PORT''] =
      [Some ''enabled'', Some (snprintf_str bufsiz (printf_d interval)),
       Some (snprintf_str bufsiz (printf_d (getpid_ret os))), Some (host_name (endpoint os)),
       Some (snprintf_str bufsiz (printf_d (int (sin_port (endpoint os)))))])"
proof (intro conjI impI)
  assume f: "endpoint_fails (endpoint os)"
  then have r: "ep_return (create_ephemeral_endpoint (endpoint os)) < 0"
    by (simp add: endpoint_return)
  show "start_return (start_monitoring_thread bufsiz os env interval) = - 1"
    using r by (simp add: start_monitoring_thread_def Let_def)
  show "start_env (start_monitoring_thread bufsiz os env interval) = env"
    using r by (simp add: start_monitoring_thread_def Let_def)
next
  assume f: "\<not> endpoint_fails (endpoint os)"
  then have r: "\<not> ep_return (create_ephemeral_endpoint (endpoint os)) < 0"
    by (simp add: endpoint_return)
  have e: "create_ephemeral_endpoint (endpoint os) =
      \<lparr>ep_return = socket_ret (endpoint os), ep_host = host_name (endpoint os),
       ep_port = sin_port (endpoint os), ep_closed = []\<rparr>"
    using f by (auto simp: create_ephemeral_endpoint_def endpoint_fails_def Let_def)
  have "start_env (start_monitoring_thread bufsiz os env interval) =
      publish bufsiz env interval (getpid_ret os) (host_name (endpoint os))
        (sin_port (endpoint os))"
    using r e by (simp add: start_monitoring_thread_def Let_def split: sum.splits)
  then show "map (start_env (start_monitoring_thread bufsiz os env interval))
        [''KICKSTART_MON'', ''KICKSTART_MON_INTERVAL'', ''KICKSTART_MON_PID'',
         ''KICKSTART_MON_HOST'', ''KICKSTART_MON_PORT''] =
      [Some ''enabled'', Some (snprintf_str bufsiz (printf_d interval)),
       Some (snprintf_str bufsiz (printf_d (getpid_ret os))), Some (host_name (endpoint os)),
       Some (snprintf_str bufsiz (printf_d (int (sin_port (endpoint os)))))]"
    using publish_values by simp
qed

text \<open>
  The same at an allocation that fails (no host name) and at one that succeeds while
  \<^verbatim>\<open>PEGASUS_WF_LABEL\<close> is missing.
\<close>

theorem publication_follows_allocation_witness:
  "endpoint_fails (endpoint (os_ok\<lparr>endpoint := os_no_hostname\<rparr>)) \<and>
   start_return (start_monitoring_thread 8192 (os_ok\<lparr>endpoint := os_no_hostname\<rparr>)
     env_no_label 10) = - 1 \<and>
   start_env (start_monitoring_thread 8192 (os_ok\<lparr>endpoint := os_no_hostname\<rparr>)
     env_no_label 10) = env_no_label \<and>
   \<not> endpoint_fails (endpoint os_ok) \<and>
   map (start_env (start_monitoring_thread 8192 os_ok env_no_label 10))
     [''KICKSTART_MON'', ''KICKSTART_MON_INTERVAL'', ''KICKSTART_MON_PID'',
      ''KICKSTART_MON_HOST'', ''KICKSTART_MON_PORT''] =
   [Some ''enabled'', Some ''10'', Some ''4242'', Some ''node1'', Some ''40000'']"
proof -
  have a: "endpoint_fails (endpoint (os_ok\<lparr>endpoint := os_no_hostname\<rparr>))"
    by (simp add: endpoint_fails_def os_no_hostname_def)
  have b: "\<not> endpoint_fails (endpoint os_ok)"
    by (simp add: endpoint_fails_def os_ok_def)
  have d: "snprintf_str 8192 (printf_d 10) = ''10''" "snprintf_str 8192 (printf_d 4242) = ''4242''"
    "snprintf_str 8192 (printf_d 40000) = ''40000''"
    by (simp_all add: snprintf_str_def printf_d_def)
  have o: "getpid_ret os_ok = 4242" "host_name (endpoint os_ok) = ''node1''"
    "sin_port (endpoint os_ok) = 40000"
    by (simp_all add: os_ok_def)
  show ?thesis
    using a b
      publication_follows_allocation[of "os_ok\<lparr>endpoint := os_no_hostname\<rparr>" 8192
        env_no_label 10]
      publication_follows_allocation[of os_ok 8192 env_no_label 10]
    by (simp add: d o)
qed

text \<open>
  C6 as it is stated fails: with an endpoint that is allocated and an environment without
  \<^verbatim>\<open>PEGASUS_WF_LABEL\<close>, start returns -1 for the missing variable and starts no thread,
  and the five values are in the environment all the same.
\<close>

theorem publication_before_config_error:
  "start_return (start_monitoring_thread 8192 os_ok env_no_label 10) = - 1 \<and>
   start_thread (start_monitoring_thread 8192 os_ok env_no_label 10) = None \<and>
   start_error (start_monitoring_thread 8192 os_ok env_no_label 10) =
     Some (not_specified ''PEGASUS_WF_LABEL'') \<and>
   map (start_env (start_monitoring_thread 8192 os_ok env_no_label 10))
     [''KICKSTART_MON'', ''KICKSTART_MON_INTERVAL'', ''KICKSTART_MON_PID'',
      ''KICKSTART_MON_HOST'', ''KICKSTART_MON_PORT''] =
     [Some ''enabled'', Some ''10'', Some ''4242'', Some ''node1'', Some ''40000'']"
  by (simp add: start_monitoring_thread_def create_ephemeral_endpoint_def os_ok_def Let_def
      publish_def initialize_monitoring_context_def env_no_label_def snprintf_str_def
      printf_d_def)

text \<open>
  C8: when a required variable is missing, the context initialisation fails with the
  message that names the first missing one, and start returns -1 without starting the
  thread (the message is that of start whenever the endpoint was allocated); when all six
  are set, the initialisation succeeds, and each optional field of the context is the
  value of its variable, absent when the variable is.
\<close>

theorem config_collection:
  "(find (\<lambda>k. env k = None) required_keys = Some k \<longrightarrow>
      initialize_monitoring_context env = Inl (not_specified k) \<and>
      start_return (start_monitoring_thread bufsiz os env interval) = - 1 \<and>
      start_thread (start_monitoring_thread bufsiz os env interval) = None \<and>
      (\<not> endpoint_fails (endpoint os) \<longrightarrow>
         start_error (start_monitoring_thread bufsiz os env interval) =
           Some (not_specified k))) \<and>
   (find (\<lambda>k. env k = None) required_keys = None \<longrightarrow>
      (case initialize_monitoring_context env of
         Inl msg \<Rightarrow> False
       | Inr ctx \<Rightarrow> xformation ctx = env ''PEGASUS_XFORMATION'' \<and>
                    task_id ctx = env ''PEGASUS_TASK_ID''))"
proof (intro conjI impI)
  assume f: "find (\<lambda>k. env k = None) required_keys = Some k"
  then show i: "initialize_monitoring_context env = Inl (not_specified k)"
    by (simp add: init_find)
  have p: "initialize_monitoring_context (publish bufsiz env interval pid host port) =
      Inl (not_specified k)" for pid host port
    using f by (simp add: init_find find_publish)
  show "start_return (start_monitoring_thread bufsiz os env interval) = - 1"
    by (simp add: start_monitoring_thread_def Let_def p)
  show "start_thread (start_monitoring_thread bufsiz os env interval) = None"
    by (simp add: start_monitoring_thread_def Let_def p)
  show "start_error (start_monitoring_thread bufsiz os env interval) = Some (not_specified k)"
    if "\<not> endpoint_fails (endpoint os)"
    using that endpoint_return[of "endpoint os"]
    by (simp add: start_monitoring_thread_def Let_def p)
next
  assume "find (\<lambda>k. env k = None) required_keys = None"
  then show "case initialize_monitoring_context env of
         Inl msg \<Rightarrow> False
       | Inr ctx \<Rightarrow> xformation ctx = env ''PEGASUS_XFORMATION'' \<and>
                    task_id ctx = env ''PEGASUS_TASK_ID''"
    by (simp add: init_find)
qed

text \<open>
  The same at an environment without \<^verbatim>\<open>PEGASUS_WF_LABEL\<close> and at one with the six
  required variables and no optional one.
\<close>

theorem config_collection_witness:
  "find (\<lambda>k. env_no_label k = None) required_keys = Some ''PEGASUS_WF_LABEL'' \<and>
   initialize_monitoring_context env_no_label = Inl (not_specified ''PEGASUS_WF_LABEL'') \<and>
   start_return (start_monitoring_thread 8192 os_ok env_no_label 10) = - 1 \<and>
   start_thread (start_monitoring_thread 8192 os_ok env_no_label 10) = None \<and>
   \<not> endpoint_fails (endpoint os_ok) \<and>
   start_error (start_monitoring_thread 8192 os_ok env_no_label 10) =
     Some (not_specified ''PEGASUS_WF_LABEL'') \<and>
   find (\<lambda>k. env_required k = None) required_keys = None \<and>
   map_sum id (\<lambda>ctx. (xformation ctx, task_id ctx))
     (initialize_monitoring_context env_required) = Inr (None, None)"
proof -
  have a: "find (\<lambda>k. env_no_label k = None) required_keys = Some ''PEGASUS_WF_LABEL''"
    by (simp add: env_no_label_def required_keys_def)
  have b: "find (\<lambda>k. env_required k = None) required_keys = None"
    by (simp add: env_required_def required_keys_def)
  have c: "\<not> endpoint_fails (endpoint os_ok)"
    by (simp add: endpoint_fails_def os_ok_def)
  have d: "env_required ''PEGASUS_XFORMATION'' = None" "env_required ''PEGASUS_TASK_ID'' = None"
    by (simp_all add: env_required_def)
  show ?thesis
    using config_collection[of env_no_label "''PEGASUS_WF_LABEL''" 8192 os_ok 10]
      config_collection[of env_required "[]" 8192 os_ok 10] a b c d
    by (auto split: sum.splits)
qed

end
